theory Spec2Isabelle
  imports Main "HOL-Library.Sublist"
begin


section \<open>Python values\<close>

text \<open>
  Python strings are modelled as \<^typ>\<open>string\<close>; a character stands for the code point
  of the same number (below 256). Exceptions are values of \<open>pyexn\<close>; a function that
  can raise returns \<open>pyexn + 'a\<close>, the left injection being the raised exception.
  \<open>KeyboardInterrupt\<close> stands for the exceptions that derive from \<open>BaseException\<close>
  only, which \<open>except Exception\<close> does not catch.
\<close>

datatype pyexn =
    ValueError | TypeError | KeyError | EnvironmentError
  | RequestException | HTTPError | OtherException | KeyboardInterrupt

fun is_Exception :: "pyexn \<Rightarrow> bool" where
  "is_Exception KeyboardInterrupt = False"
| "is_Exception _ = True"

fun is_RequestException :: "pyexn \<Rightarrow> bool" where
  "is_RequestException RequestException = True"
| "is_RequestException HTTPError = True"
| "is_RequestException _ = False"

section \<open>ISO-8601 durations (media_meta_data.py, parse_youtube_duration_short)\<close>

definition is_digit :: "char \<Rightarrow> bool" where
  "is_digit c \<longleftrightarrow> c \<in> set ''0123456789''"

definition digit_val :: "char \<Rightarrow> nat" where
  "digit_val c = of_char c - 48"

text \<open>\<open>int(s)\<close> on a string of decimal digits. CPython 3.11 refuses more than 4300
  digits with ValueError.\<close>

definition py_int :: "string \<Rightarrow> pyexn + nat" where
  "py_int ds =
     (if length ds > 4300 then Inl ValueError
      else Inr (foldl (\<lambda>n c. 10 * n + digit_val c) 0 ds))"

text \<open>\<open>str(n)\<close> for a natural number, and the format specifier \<open>:02d\<close>.\<close>

fun str_nat :: "nat \<Rightarrow> string" where
  "str_nat n =
     (if n < 10 then [char_of (48 + n)]
      else str_nat (n div 10) @ [char_of (48 + n mod 10)])"

declare str_nat.simps [simp del]

definition fmt_02d :: "nat \<Rightarrow> string" where
  "fmt_02d n = (let s = str_nat n in replicate (2 - length s) CHR ''0'' @ s)"

text \<open>
  One optional group \<open>(?:(\d+)U)?\<close> of the pattern, matched at the front of \<open>s\<close>:
  the captured digits (or None when the group does not take part) and the rest.
\<close>

definition opt_group :: "char \<Rightarrow> string \<Rightarrow> string option \<times> string" where
  "opt_group u s =
     (let ds = takeWhile is_digit s; r = dropWhile is_digit s
      in if ds \<noteq> [] \<and> take 1 r = [u] then (Some ds, drop 1 r) else (None, s))"

text \<open>\<open>re.compile(r'PT(?:(\d+)H)?(?:(\d+)M)?(?:(\d+)S)?').fullmatch(duration)\<close>:
  the three groups of the match, or None.\<close>

definition fullmatch_duration ::
    "string \<Rightarrow> (string option \<times> string option \<times> string option) option" where
  "fullmatch_duration s =
     (if take 2 s = ''PT'' then
        (let (h, r1) = opt_group CHR ''H'' (drop 2 s);
             (m, r2) = opt_group CHR ''M'' r1;
             (x, r3) = opt_group CHR ''S'' r2
         in if r3 = [] then Some (h, m, x) else None)
      else None)"

text \<open>\<open>int(match.group(i)) if match.group(i) else 0\<close>\<close>

definition group_int :: "string option \<Rightarrow> pyexn + nat" where
  "group_int g = (case g of None \<Rightarrow> Inr 0 | Some ds \<Rightarrow> if ds = [] then Inr 0 else py_int ds)"

definition parse_youtube_duration_short :: "string \<Rightarrow> pyexn + string option" where
  "parse_youtube_duration_short duration =
     (case fullmatch_duration duration of
        None \<Rightarrow> Inr None
      | Some (h, m, x) \<Rightarrow>
          (case group_int h of Inl e \<Rightarrow> Inl e | Inr hours \<Rightarrow>
           case group_int m of Inl e \<Rightarrow> Inl e | Inr minutes \<Rightarrow>
           case group_int x of Inl e \<Rightarrow> Inl e | Inr seconds \<Rightarrow>
             Inr (Some (if hours \<noteq> 0
                        then str_nat hours @ '':'' @ fmt_02d minutes @ '':'' @ fmt_02d seconds
                        else str_nat minutes @ '':'' @ fmt_02d seconds))))"





section \<open>YouTube video ids (media_meta_data.py and youtube_metadata_fetcher.py, extract_video_id)\<close>

text \<open>The character class \<open>[A-Za-z0-9_-]\<close>.\<close>

definition id_char :: "char \<Rightarrow> bool" where
  "id_char c \<longleftrightarrow>
     c \<in> set ''ABCDEFGHIJKLMNOPQRSTUVWXYZabcdefghijklmnopqrstuvwxyz0123456789_-''"

text \<open>
  The pattern \<open>(?:v=|/v/|youtu\.be/|shorts/)([A-Za-z0-9_-]{11})\<close> matched at the front
  of \<open>s\<close>: the alternatives are tried in order, and one that is followed by eleven
  characters of the class gives the capture group.
\<close>

definition id_alternatives :: "string list" where
  "id_alternatives = [''v='', ''/v/'', ''youtu.be/'', ''shorts/'']"

fun match_alternatives :: "string list \<Rightarrow> string \<Rightarrow> string option" where
  "match_alternatives [] s = None"
| "match_alternatives (a # as) s =
     (let r = drop (length a) s
      in if take (length a) s = a \<and> length (take 11 r) = 11 \<and> list_all id_char (take 11 r)
         then Some (take 11 r)
         else match_alternatives as s)"

text \<open>\<open>re.search\<close>: the match at the leftmost position that has one.\<close>

fun re_search_id :: "string \<Rightarrow> string option" where
  "re_search_id [] = match_alternatives id_alternatives []"
| "re_search_id (c # cs) =
     (case match_alternatives id_alternatives (c # cs) of
        Some g \<Rightarrow> Some g
      | None \<Rightarrow> re_search_id cs)"

text \<open>The list of patterns has the one element; the loop returns the first match.\<close>

fun first_match :: "(string \<Rightarrow> string option) list \<Rightarrow> string \<Rightarrow> string option" where
  "first_match [] url = None"
| "first_match (p # ps) url = (case p url of Some g \<Rightarrow> Some g | None \<Rightarrow> first_match ps url)"

definition extract_video_id :: "string \<Rightarrow> string option" where
  "extract_video_id url = first_match [re_search_id] url"

section \<open>Platform detection (main.py and media_meta_data.py, detect_platform)\<close>

subsection \<open>Library functions it calls\<close>

text \<open>\<open>str.isspace\<close>, \<open>str.strip()\<close> and \<open>str.lower()\<close> on code points below 256.\<close>

definition py_isspace :: "char \<Rightarrow> bool" where
  "py_isspace c \<longleftrightarrow> (of_char c :: nat) \<in> set [9, 10, 11, 12, 13, 28, 29, 30, 31, 32, 133, 160]"

definition py_strip :: "string \<Rightarrow> string" where
  "py_strip s = rev (dropWhile py_isspace (rev (dropWhile py_isspace s)))"

definition py_lower_char :: "char \<Rightarrow> char" where
  "py_lower_char c =
     (let n = (of_char c :: nat)
      in if (65 \<le> n \<and> n \<le> 90) \<or> (192 \<le> n \<and> n \<le> 222 \<and> n \<noteq> 215)
         then char_of (n + 32) else c)"

definition py_lower :: "string \<Rightarrow> string" where
  "py_lower s = map py_lower_char s"

text \<open>
  \<open>urllib.parse.urlparse(url).netloc\<close>, following \<open>urlsplit\<close> of CPython 3.11:
  leading C0 control characters and spaces are stripped, tab, CR and LF are removed,
  a scheme is split off, and when the rest starts with \<open>//\<close> the netloc runs to the
  first of \<open>/ ? #\<close>. The netloc then passes the bracket checks and \<open>_checknetloc\<close>.
\<close>

definition c0_control_or_space :: "char \<Rightarrow> bool" where
  "c0_control_or_space c \<longleftrightarrow> (of_char c :: nat) \<le> 32"

definition unsafe_url_byte :: "char \<Rightarrow> bool" where
  "unsafe_url_byte c \<longleftrightarrow> (of_char c :: nat) \<in> set [9, 13, 10]"

definition scheme_char :: "char \<Rightarrow> bool" where
  "scheme_char c \<longleftrightarrow>
     c \<in> set ''abcdefghijklmnopqrstuvwxyzABCDEFGHIJKLMNOPQRSTUVWXYZ0123456789+-.''"

definition ascii_alpha :: "char \<Rightarrow> bool" where
  "ascii_alpha c \<longleftrightarrow> c \<in> set ''abcdefghijklmnopqrstuvwxyzABCDEFGHIJKLMNOPQRSTUVWXYZ''"

definition strip_scheme :: "string \<Rightarrow> string" where
  "strip_scheme url =
     (let pre = takeWhile (\<lambda>c. c \<noteq> CHR '':'') url
      in if CHR '':'' \<in> set url \<and> (case pre of [] \<Rightarrow> False | c # _ \<Rightarrow> ascii_alpha c)
            \<and> list_all scheme_char pre
         then drop (length pre + 1) url else url)"

text \<open>The netloc as \<open>_splitnetloc\<close> cuts it out, before any check.\<close>

definition raw_netloc :: "string \<Rightarrow> string" where
  "raw_netloc url0 =
     (let url = strip_scheme (filter (\<lambda>c. \<not> unsafe_url_byte c) (dropWhile c0_control_or_space url0))
      in if take 2 url = ''//''
         then takeWhile (\<lambda>c. c \<notin> set ''/?#'') (drop 2 url)
         else [])"

text \<open>
  The two library functions that \<open>urlsplit\<close> consults are parameters:
  \<open>_check_bracketed_host\<close>, which validates an IP literal with the \<open>ipaddress\<close> module
  (true when it does not raise), and \<open>unicodedata.normalize('NFKC', s)\<close>.
\<close>

record urllib =
  check_bracketed_host :: "string \<Rightarrow> bool"
  normalize_nfkc :: "string \<Rightarrow> string"

text \<open>The bracket checks of \<open>urlsplit\<close>: one bracket without the other, or a bracketed
  host that \<open>_check_bracketed_host\<close> refuses.\<close>

definition bracketed_host :: "string \<Rightarrow> string" where
  "bracketed_host netloc =
     takeWhile (\<lambda>c. c \<noteq> CHR '']'') (drop 1 (dropWhile (\<lambda>c. c \<noteq> CHR ''['') netloc))"

definition brackets_rejected :: "urllib \<Rightarrow> string \<Rightarrow> bool" where
  "brackets_rejected lib netloc =
     (let ob = CHR ''['' \<in> set netloc; cb = CHR '']'' \<in> set netloc
      in (ob \<and> \<not> cb) \<or> (cb \<and> \<not> ob) \<or>
         (ob \<and> cb \<and> \<not> check_bracketed_host lib (bracketed_host netloc)))"

text \<open>
  \<open>_checknetloc\<close>: an empty or all-ASCII netloc passes; otherwise the netloc without
  \<open>@ : # ?\<close> is normalised, and it is refused when the normal form differs and holds one
  of \<open>/ ? # @ :\<close>. CPython's normal form of code points below 256 holds none of them
  that the netloc did not hold; the check is kept for any normalisation, so that what
  is proved does not rest on that.
\<close>

definition is_ascii :: "char \<Rightarrow> bool" where
  "is_ascii c \<longleftrightarrow> (of_char c :: nat) < 128"

definition checknetloc_rejected :: "urllib \<Rightarrow> string \<Rightarrow> bool" where
  "checknetloc_rejected lib netloc =
     (if netloc = [] \<or> list_all is_ascii netloc then False
      else (let n = filter (\<lambda>c. c \<notin> set ''@:#?'') netloc;
                netloc2 = normalize_nfkc lib n
            in n \<noteq> netloc2 \<and> list_ex (\<lambda>c. c \<in> set netloc2) ''/?#@:''))"

text \<open>Either check raises ValueError.\<close>

definition netloc_rejected :: "urllib \<Rightarrow> string \<Rightarrow> bool" where
  "netloc_rejected lib netloc \<longleftrightarrow> brackets_rejected lib netloc \<or> checknetloc_rejected lib netloc"

definition urlparse_netloc :: "urllib \<Rightarrow> string \<Rightarrow> pyexn + string" where
  "urlparse_netloc lib url =
     (if netloc_rejected lib (raw_netloc url) then Inl ValueError else Inr (raw_netloc url))"

text \<open>For the closed examples: a library whose \<open>_check_bracketed_host\<close> refuses every
  host and whose normalisation changes nothing. The netlocs of the examples are ASCII,
  and \<open>_checknetloc\<close> returns on them before it normalises.\<close>

definition strict_lib :: urllib where
  "strict_lib = \<lparr>check_bracketed_host = (\<lambda>h. False), normalize_nfkc = (\<lambda>s. s)\<rparr>"

text \<open>
  \<open>re.search(r"(a|b)$", s)\<close> for literal alternatives: some position where an
  alternative matches and \<open>$\<close> holds after it, which is at the end of the string or
  before a newline that ends it.
\<close>

definition at_dollar :: "string \<Rightarrow> bool" where
  "at_dollar r \<longleftrightarrow> r = [] \<or> r = [CHR 0x0A]"

definition match_alt_end :: "string list \<Rightarrow> string \<Rightarrow> bool" where
  "match_alt_end alts s =
     list_ex (\<lambda>a. take (length a) s = a \<and> at_dollar (drop (length a) s)) alts"

fun re_search_end :: "string list \<Rightarrow> string \<Rightarrow> bool" where
  "re_search_end alts [] = match_alt_end alts []"
| "re_search_end alts (c # cs) = (match_alt_end alts (c # cs) \<or> re_search_end alts cs)"

subsection \<open>The function\<close>

definition detect_platform :: "urllib \<Rightarrow> string \<Rightarrow> pyexn + string" where
  "detect_platform lib url0 =
     (let url = py_strip url0
      in if url = [] then Inr ''unknown''
         else case urlparse_netloc lib url of
                Inl e \<Rightarrow> Inl e
              | Inr netloc \<Rightarrow>
                  (let domain = py_lower netloc
                   in if re_search_end [''youtube.com'', ''youtu.be''] domain then Inr ''youtube''
                      else if re_search_end [''tiktok.com''] domain then Inr ''tiktok''
                      else if re_search_end [''instagram.com''] domain then Inr ''instagram''
                      else Inr ''unknown''))"

section \<open>Collaborators\<close>

text \<open>
  A metadata record is a Python dict with string keys, kept in insertion order; a value
  is a string or None. The network collaborators are functions of an environment: each
  takes the calls made so far and its request, so that an answer may depend on the
  history. Every call is appended to the log, which is threaded through the functions
  that can reach the network. \<open>time.sleep\<close> is left out.
\<close>

type_synonym pyval = "string option"

type_synonym metadata = "(string \<times> pyval) list"

datatype call =
    RequestsGet string "(string \<times> string) list"
  | VideosList "string option"
  | ChannelsList "string option"

text \<open>
  What \<open>requests.get\<close> returns: whether \<open>raise_for_status\<close> passes, the parsed page
  (\<open>BeautifulSoup(r.text, "html.parser")\<close> as the function from a property name to the
  first meta tag with it, a tag being its \<open>content\<close> attribute if it has one), and
  \<open>r.json()\<close>.
\<close>

record response =
  status_ok :: bool
  soup :: "pyexn + (string \<Rightarrow> string option option)"
  json :: "pyexn + (string \<Rightarrow> pyval)"

text \<open>An item of \<open>videos().list\<close>, with the fields fetch_video_data reads.\<close>

record video_item =
  title :: pyval
  description :: pyval
  channelId :: pyval
  publishedAt :: pyval
  thumbnail_default_url :: pyval
  defaultAudioLanguage :: pyval
  duration :: pyval

text \<open>An item of \<open>channels().list\<close>: its \<open>statistics\<close> entry, if present, holds the
  subscriber count or not.\<close>

record channel_item =
  statistics :: "pyval option"

record env =
  requests_get :: "call list \<Rightarrow> string \<Rightarrow> (string \<times> string) list \<Rightarrow> pyexn + response"
  videos_list :: "call list \<Rightarrow> string option \<Rightarrow> pyexn + video_item list"
  channels_list :: "call list \<Rightarrow> string option \<Rightarrow> pyexn + channel_item list"
  url_lib :: urllib

section \<open>Instagram (media_meta_data.py and temp.py, fetch_instagram_meta)\<close>

text \<open>\<open>x or ""\<close> for a string or None, and \<open>s.replace(old, new)\<close>.\<close>

definition str_or_empty :: "pyval \<Rightarrow> string" where
  "str_or_empty v = (case v of None \<Rightarrow> [] | Some s \<Rightarrow> s)"

fun py_replace :: "string \<Rightarrow> string \<Rightarrow> string \<Rightarrow> string" where
  "py_replace old new [] = []"
| "py_replace old new (c # cs) =
     (if old \<noteq> [] \<and> take (length old) (c # cs) = old
      then new @ py_replace old new (drop (length old) (c # cs))
      else c # py_replace old new cs)"

text \<open>The inner function \<open>og\<close>:
  \<open>tag["content"].strip() if tag and tag.get("content") else None\<close>.\<close>

definition og :: "(string \<Rightarrow> string option option) \<Rightarrow> string \<Rightarrow> pyval" where
  "og page prop =
     (case page prop of
        None \<Rightarrow> None
      | Some None \<Rightarrow> None
      | Some (Some content) \<Rightarrow> if content = [] then None else Some (py_strip content))"

text \<open>The first three statements of the \<open>try\<close> block, common to both files: the
  request, \<open>raise_for_status\<close> and the parse.\<close>

definition instagram_page ::
    "env \<Rightarrow> string \<Rightarrow> call list \<Rightarrow> (pyexn + (string \<Rightarrow> string option option)) \<times> call list" where
  "instagram_page e url log =
     (let log' = log @ [RequestsGet url []]
      in case requests_get e log url [] of
           Inl x \<Rightarrow> (Inl x, log')
         | Inr r \<Rightarrow> if status_ok r then (soup r, log') else (Inl HTTPError, log'))"

text \<open>The body of the \<open>try\<close> block of media_meta_data.py.\<close>

definition instagram_try :: "env \<Rightarrow> string \<Rightarrow> call list \<Rightarrow> (pyexn + metadata) \<times> call list" where
  "instagram_try e url log =
     (case instagram_page e url log of
        (Inl x, log') \<Rightarrow> (Inl x, log')
      | (Inr page, log') \<Rightarrow>
          (let desc = og page ''og:description''; image = og page ''og:image''
           in (Inr [(''url'', Some (str_or_empty (Some url))),
                    (''description'', Some (py_replace ''nan'' [] (str_or_empty desc))),
                    (''thumbnail'', Some (py_replace ''nan'' [] (str_or_empty image)))], log')))"

text \<open>\<open>except Exception\<close>: the handler's record replaces an exception that derives
  from Exception; any other propagates.\<close>

definition fetch_instagram_meta :: "env \<Rightarrow> string \<Rightarrow> call list \<Rightarrow> (pyexn + metadata) \<times> call list" where
  "fetch_instagram_meta e url log =
     (case instagram_try e url log of
        (Inl x, log') \<Rightarrow>
          if is_Exception x
          then (Inr [(''url'', Some url), (''description'', Some []), (''thumbnail'', Some [])], log')
          else (Inl x, log')
      | (Inr m, log') \<Rightarrow> (Inr m, log'))"

text \<open>temp.py: the title is computed and dropped; no replacement is applied.\<close>

definition instagram_try_temp :: "env \<Rightarrow> string \<Rightarrow> call list \<Rightarrow> (pyexn + metadata) \<times> call list" where
  "instagram_try_temp e url log =
     (case instagram_page e url log of
        (Inl x, log') \<Rightarrow> (Inl x, log')
      | (Inr page, log') \<Rightarrow>
          (let desc = og page ''og:description''; image = og page ''og:image''
           in (Inr [(''url'', Some url),
                    (''description'', Some (str_or_empty desc)),
                    (''thumbnail'', Some (str_or_empty image))], log')))"

definition fetch_instagram_meta_temp ::
    "env \<Rightarrow> string \<Rightarrow> call list \<Rightarrow> (pyexn + metadata) \<times> call list" where
  "fetch_instagram_meta_temp e url log =
     (case instagram_try_temp e url log of
        (Inl x, log') \<Rightarrow>
          if is_Exception x
          then (Inr [(''url'', Some url), (''description'', Some []), (''thumbnail'', Some [])], log')
          else (Inl x, log')
      | (Inr m, log') \<Rightarrow> (Inr m, log'))"

section \<open>TikTok (media_meta_data.py, fetch_tiktok_reel_metadata)\<close>

text \<open>The parse of the \<open>html\<close> fragment is not used by the result and is left out.
  Only \<open>requests.exceptions.RequestException\<close> is handled.\<close>

definition fetch_tiktok_reel_metadata ::
    "env \<Rightarrow> string \<Rightarrow> call list \<Rightarrow> (pyexn + metadata option) \<times> call list" where
  "fetch_tiktok_reel_metadata e reel_url log =
     (let params = [(''url'', reel_url)];
          log' = log @ [RequestsGet ''https://www.tiktok.com/oembed'' params];
          body = (case requests_get e log ''https://www.tiktok.com/oembed'' params of
                    Inl x \<Rightarrow> Inl x
                  | Inr r \<Rightarrow>
                      if \<not> status_ok r then Inl HTTPError
                      else case json r of
                             Inl x \<Rightarrow> Inl x
                           | Inr data \<Rightarrow>
                               Inr [(''Title / Headline'', data ''title''),
                                    (''Creator / Channel'', data ''author_url''),
                                    (''Thumbnail Url'', data ''thumbnail_url'')])
      in case body of
           Inl x \<Rightarrow> if is_RequestException x then (Inr None, log') else (Inl x, log')
         | Inr m \<Rightarrow> (Inr (Some m), log'))"

section \<open>YouTube (media_meta_data.py, get_channel_statistics and fetch_video_data)\<close>

definition get_channel_statistics ::
    "env \<Rightarrow> string option \<Rightarrow> call list \<Rightarrow> (pyexn + pyval) \<times> call list" where
  "get_channel_statistics e channel_id log =
     (let log' = log @ [ChannelsList channel_id]
      in case channels_list e log channel_id of
           Inl x \<Rightarrow> (Inl x, log')
         | Inr [] \<Rightarrow> (Inr None, log')
         | Inr (item # _) \<Rightarrow>
             (case statistics item of
                None \<Rightarrow> (Inl KeyError, log')
              | Some subscriberCount \<Rightarrow> (Inr subscriberCount, log')))"

text \<open>\<open>str(x)\<close> inside an f-string, and \<open>s.split("T")[0]\<close>.\<close>

definition py_str :: "pyval \<Rightarrow> string" where
  "py_str v = (case v of None \<Rightarrow> ''None'' | Some s \<Rightarrow> s)"

definition publish_date :: "pyval \<Rightarrow> pyval" where
  "publish_date v =
     (case v of
        None \<Rightarrow> None
      | Some s \<Rightarrow> if s = [] then None else Some (takeWhile (\<lambda>c. c \<noteq> CHR ''T'') s))"

text \<open>\<open>parse_youtube_duration_short(content.get("duration"))\<close>: \<open>fullmatch\<close> raises
  TypeError on None.\<close>

definition parse_duration_value :: "pyval \<Rightarrow> pyexn + pyval" where
  "parse_duration_value v =
     (case v of None \<Rightarrow> Inl TypeError | Some d \<Rightarrow> parse_youtube_duration_short d)"

definition fetch_video_data ::
    "env \<Rightarrow> string option \<Rightarrow> call list \<Rightarrow> (pyexn + metadata option) \<times> call list" where
  "fetch_video_data e video_id log =
     (let log1 = log @ [VideosList video_id]
      in case videos_list e log video_id of
           Inl x \<Rightarrow> (Inl x, log1)
         | Inr [] \<Rightarrow> (Inr None, log1)
         | Inr (item # _) \<Rightarrow>
             (case get_channel_statistics e (channelId item) log1 of
                (Inl x, log2) \<Rightarrow> (Inl x, log2)
              | (Inr subsribers, log2) \<Rightarrow>
                  (case parse_duration_value (duration item) of
                     Inl x \<Rightarrow> (Inl x, log2)
                   | Inr dur \<Rightarrow>
                       (Inr (Some
                          [(''Title / Headline'', title item),
                           (''Description / Summary'', description item),
                           (''Creator / Channel'',
                              Some (''https://www.youtube.com/channel/'' @ py_str (channelId item))),
                           (''Publish Date'', publish_date (publishedAt item)),
                           (''Thumbnail Url'', thumbnail_default_url item),
                           (''Language'', defaultAudioLanguage item),
                           (''Duration'', dur),
                           (''Followers / Subscribers'', subsribers)]), log2))))"

section \<open>The dispatcher of media_meta_data.py (download_metadata)\<close>

definition download_metadata ::
    "env \<Rightarrow> nat \<Rightarrow> string \<Rightarrow> call list \<Rightarrow> (pyexn + metadata option) \<times> call list" where
  "download_metadata e row_num url log =
     (case detect_platform (url_lib e) url of
        Inl x \<Rightarrow> (Inl x, log)
      | Inr platform \<Rightarrow>
          if platform = ''unknown'' then (Inr None, log)
          else if platform = ''youtube'' then fetch_video_data e (extract_video_id url) log
          else if platform = ''tiktok'' then fetch_tiktok_reel_metadata e url log
          else if platform = ''instagram'' then
            (case fetch_instagram_meta e url log of
               (Inl x, log') \<Rightarrow> (Inl x, log')
             | (Inr m, log') \<Rightarrow> (Inr (Some m), log'))
          else (Inr None, log))"

section \<open>The row loop of media_meta_data.py\<close>

text \<open>
  The data frame is a list of column names and a list of rows, a row being a dict from
  column names to cells. A CSV file holds a table; \<open>pd.read_csv\<close> followed by
  \<open>astype(str)\<close> and the replacement of \<open>^\s*nan\s*$\<close> gives the frame, with a missing
  cell (None in the file's table) and a cell that is \<open>nan\<close> between whitespace both
  turned into the empty string.
\<close>

type_synonym row = "(string \<times> pyval) list"

record table =
  columns :: "string list"
  rows :: "row list"

definition INPUT_CSV :: string where
  "INPUT_CSV = ''WHATSAPP_AI_Video_Library_2025-10-12.csv''"

definition TEMP_CSV :: string where
  "TEMP_CSV = ''temp.csv''"

definition load_cell :: "pyval \<Rightarrow> pyval" where
  "load_cell v =
     (case v of
        None \<Rightarrow> Some []
      | Some s \<Rightarrow> if py_strip s = ''nan'' then Some [] else Some s)"

definition load_df :: "table \<Rightarrow> table" where
  "load_df t = t\<lparr>rows := map (map (\<lambda>(k, v). (k, load_cell v))) (rows t)\<rparr>"

record loop_state =
  df :: table
  files :: "string \<Rightarrow> table option"
  success_count :: nat
  skipped_error_count :: nat
  calls :: "call list"

text \<open>\<open>str(row.get("URL / Media", "")).strip()\<close>\<close>

definition row_url :: "row \<Rightarrow> string" where
  "row_url r =
     py_strip (case map_of r ''URL / Media'' of None \<Rightarrow> [] | Some v \<Rightarrow> py_str v)"

text \<open>Writing a cell: \<open>df.at[idx, key] = value\<close>, and \<open>df[key] = None\<close> for a new
  column.\<close>

definition set_cell :: "string \<Rightarrow> pyval \<Rightarrow> row \<Rightarrow> row" where
  "set_cell key v r =
     (if key \<in> fst ` set r then map (\<lambda>(k, w). if k = key then (k, v) else (k, w)) r
      else r @ [(key, v)])"

definition add_column :: "string \<Rightarrow> table \<Rightarrow> table" where
  "add_column key t =
     t\<lparr>columns := columns t @ [key], rows := map (set_cell key None) (rows t)\<rparr>"

definition set_at :: "nat \<Rightarrow> string \<Rightarrow> pyval \<Rightarrow> table \<Rightarrow> table" where
  "set_at idx key v t =
     (if idx < length (rows t) then t\<lparr>rows := (rows t)[idx := set_cell key v (rows t ! idx)]\<rparr>
      else t)"

text \<open>The body of \<open>for key, value in results.items()\<close>; a string that is \<open>nan\<close> in
  any letter case is stored as the empty string.\<close>

definition store_value :: "nat \<Rightarrow> string \<times> pyval \<Rightarrow> table \<Rightarrow> table" where
  "store_value idx kv t =
     (let key = fst kv;
          t1 = (if key \<notin> set (columns t) then add_column key t else t);
          value = (case snd kv of
                     None \<Rightarrow> None
                   | Some s \<Rightarrow> if py_lower s = ''nan'' then Some [] else Some s)
      in set_at idx key value t1)"

text \<open>
  One iteration of the loop. The first component is an exception that leaves the loop:
  the handler of the iteration catches what derives from Exception and counts it.
\<close>

definition process_row :: "env \<Rightarrow> loop_state \<Rightarrow> nat \<times> row \<Rightarrow> pyexn option \<times> loop_state" where
  "process_row e st ir =
     (let idx = fst ir; url = row_url (snd ir)
      in if url = [] \<or> url = ''nan''
         then (None, st\<lparr>skipped_error_count := skipped_error_count st + 1\<rparr>)
         else case download_metadata e (idx + 1) url (calls st) of
                (Inl x, log') \<Rightarrow>
                  if is_Exception x
                  then (None, st\<lparr>skipped_error_count := skipped_error_count st + 1, calls := log'\<rparr>)
                  else (Some x, st\<lparr>calls := log'\<rparr>)
              | (Inr results, log') \<Rightarrow>
                  (case results of
                     Some (kv # kvs) \<Rightarrow>
                       (let df' = fold (store_value idx) (kv # kvs) (df st)
                        in (None, st\<lparr>df := df',
                                     files := (files st)(TEMP_CSV := Some df'),
                                     success_count := success_count st + 1,
                                     calls := log'\<rparr>))
                   | _ \<Rightarrow>
                       (None, st\<lparr>skipped_error_count := skipped_error_count st + 1,
                                 calls := log'\<rparr>)))"

fun row_loop :: "env \<Rightarrow> loop_state \<Rightarrow> (nat \<times> row) list \<Rightarrow> pyexn option \<times> loop_state" where
  "row_loop e st [] = (None, st)"
| "row_loop e st (ir # irs) =
     (case process_row e st ir of
        (Some x, st') \<Rightarrow> (Some x, st')
      | (None, st') \<Rightarrow> row_loop e st' irs)"

text \<open>The state when the loop starts: the frame is read and the temporary file
  written.\<close>

definition initial_state :: "(string \<Rightarrow> table option) \<Rightarrow> table \<Rightarrow> loop_state" where
  "initial_state fs t =
     \<lparr>df = load_df t, files = fs(TEMP_CSV := Some (load_df t)),
      success_count = 0, skipped_error_count = 0, calls = []\<rparr>"

text \<open>\<open>os.replace(TEMP_CSV, INPUT_CSV)\<close>\<close>

definition os_replace :: "string \<Rightarrow> string \<Rightarrow> (string \<Rightarrow> table option) \<Rightarrow> (string \<Rightarrow> table option)" where
  "os_replace src dst fs = (fs(dst := fs src))(src := None)"

text \<open>The whole script: a missing input file raises in \<open>read_csv\<close>, which the outer
  handler reports, leaving the files as they are.\<close>

definition main_script :: "env \<Rightarrow> (string \<Rightarrow> table option) \<Rightarrow> pyexn option \<times> (string \<Rightarrow> table option)" where
  "main_script e fs =
     (case fs INPUT_CSV of
        None \<Rightarrow> (None, fs)
      | Some t \<Rightarrow>
          (case row_loop e (initial_state fs t) (enumerate 0 (rows (load_df t))) of
             (Some x, st) \<Rightarrow> (Some x, files st)
           | (None, st) \<Rightarrow> (None, os_replace TEMP_CSV INPUT_CSV (files st))))"

section \<open>The dispatcher of main.py (download_video)\<close>

text \<open>
  The three downloaders of main.py, the login of the Instagram loader and the
  environment variables are parameters: \<open>'w\<close> is the world they act on (network and
  files), \<open>'r\<close> what a downloader returns, \<open>'l\<close> a logged-in loader.
\<close>

record ('w, 'r, 'l) downloaders =
  getenv :: "string \<Rightarrow> string option"
  download_tiktok :: "string \<Rightarrow> string \<Rightarrow> 'w \<Rightarrow> (pyexn + 'r option) \<times> 'w"
  download_youtube :: "string \<Rightarrow> 'w \<Rightarrow> (pyexn + 'r option) \<times> 'w"
  login :: "string \<Rightarrow> string \<Rightarrow> 'w \<Rightarrow> (pyexn + 'l) \<times> 'w"
  download_instagram :: "string \<Rightarrow> 'l option \<Rightarrow> 'w \<Rightarrow> (pyexn + 'r option) \<times> 'w"
  dl_url_lib :: urllib

text \<open>A value of an environment variable is false when unset or empty.\<close>

definition env_set :: "string option \<Rightarrow> bool" where
  "env_set v = (case v of None \<Rightarrow> False | Some s \<Rightarrow> s \<noteq> [])"

definition download_video ::
    "('w, 'r, 'l) downloaders \<Rightarrow> string \<Rightarrow> 'w \<Rightarrow> (pyexn + 'r option) \<times> 'w" where
  "download_video d url w =
     (case detect_platform (dl_url_lib d) url of
        Inl x \<Rightarrow> (Inl x, w)
      | Inr platform \<Rightarrow>
          if platform = ''unknown'' then (Inr None, w)
          else if platform = ''tiktok'' then
            (case getenv d ''RAPIDAPI_KEY'' of
               None \<Rightarrow> (Inl EnvironmentError, w)
             | Some rapidapi_key \<Rightarrow>
                 if rapidapi_key = [] then (Inl EnvironmentError, w)
                 else download_tiktok d url rapidapi_key w)
          else if platform = ''youtube'' then download_youtube d url w
          else if platform = ''instagram'' then
            (if env_set (getenv d ''INSTA_USERNAME'') \<and> env_set (getenv d ''INSTA_PASSWORD'')
             then (case login d (the (getenv d ''INSTA_USERNAME'')) (the (getenv d ''INSTA_PASSWORD'')) w of
                     (Inl x, w') \<Rightarrow> (Inl x, w')
                   | (Inr L, w') \<Rightarrow> download_instagram d url (Some L) w')
             else download_instagram d url None w)
          else (Inr None, w))"

section \<open>Environments for the closed examples\<close>

text \<open>A server that answers every request with a page whose \<open>og:description\<close> is the
  given text and that has no other meta tag.\<close>

definition og_page :: "string \<Rightarrow> string \<Rightarrow> string option option" where
  "og_page d prop = (if prop = ''og:description'' then Some (Some d) else None)"

definition og_env :: "string \<Rightarrow> env" where
  "og_env d =
     \<lparr>requests_get = (\<lambda>log url params.
         Inr \<lparr>status_ok = True, soup = Inr (og_page d), json = Inl ValueError\<rparr>),
      videos_list = (\<lambda>log vid. Inr []),
      channels_list = (\<lambda>log cid. Inr []),
      url_lib = strict_lib\<rparr>"

text \<open>A server that answers every request with status 404, and a video provider that
  finds no item.\<close>

definition not_found_env :: env where
  "not_found_env =
     \<lparr>requests_get = (\<lambda>log url params.
         Inr \<lparr>status_ok = False, soup = Inr (\<lambda>prop. None), json = Inl ValueError\<rparr>),
      videos_list = (\<lambda>log vid. Inr []),
      channels_list = (\<lambda>log cid. Inr []),
      url_lib = strict_lib\<rparr>"

text \<open>Downloaders that count their invocations in the world and return their name;
  no environment variable is set.\<close>

definition counting_downloaders :: "(nat, string, unit) downloaders" where
  "counting_downloaders =
     \<lparr>getenv = (\<lambda>name. None),
      download_tiktok = (\<lambda>url key w. (Inr (Some ''tiktok''), Suc w)),
      download_youtube = (\<lambda>url w. (Inr (Some ''youtube''), Suc w)),
      login = (\<lambda>user password w. (Inr (), Suc w)),
      download_instagram = (\<lambda>url L w. (Inr (Some ''instagram''), Suc w)),
      dl_url_lib = strict_lib\<rparr>"

text \<open>A table of two rows: a YouTube link and a row with no link.\<close>

definition two_rows :: table where
  "two_rows =
     \<lparr>columns = [''Platform'', ''URL / Media''],
      rows = [[(''Platform'', Some ''youtube''), (''URL / Media'', Some ''https://youtu.be/dQw4w9WgXcQ'')],
              [(''Platform'', Some ''instagram''), (''URL / Media'', None)]]\<rparr>"

definition two_rows_files :: "string \<Rightarrow> table option" where
  "two_rows_files name = (if name = INPUT_CSV then Some two_rows else None)"

section \<open>Properties of the duration parser\<close>













text \<open>
  C10: the bare string \<open>PT\<close> matches the pattern with all three groups absent, and
  parse_youtube_duration_short returns \<open>0:00\<close> for it, not None.
\<close>

theorem parse_youtube_duration_short_bare_PT:
  "fullmatch_duration ''PT'' = Some (None, None, None) \<and>
   parse_youtube_duration_short ''PT'' = Inr (Some ''0:00'')"
  by code_simp

theorem parse_youtube_duration_short_bare_PT_witness:
  "parse_youtube_duration_short ''PT'' \<noteq> Inr None"
  using parse_youtube_duration_short_bare_PT by simp

section \<open>Properties of the video id extractor\<close>

lemma match_at_youtu_be:
  assumes "length i = 11" "list_all id_char i"
  shows "match_alternatives id_alternatives (''youtu.be/'' @ i @ r) = Some i"
  using assms by (simp add: id_alternatives_def)

lemma re_search_id_canonical:
  assumes "length i = 11" "list_all id_char i"
  shows "re_search_id (''https://youtu.be/'' @ i) = Some i"
  using match_at_youtu_be[OF assms, of "[]"]
  by (simp add: id_alternatives_def)

text \<open>
  C8: for every id of exactly eleven characters of \<open>[A-Za-z0-9_-]\<close>,
  extract_video_id applied to \<open>https://youtu.be/\<close> followed by the id returns the id.
\<close>

theorem extract_video_id_roundtrip:
  "length i = 11 \<Longrightarrow> list_all id_char i \<Longrightarrow> extract_video_id (''https://youtu.be/'' @ i) = Some i"
proof -
  assume a: "length i = 11" "list_all id_char i"
  have "first_match [re_search_id] (''https://youtu.be/'' @ i) =
        (case re_search_id (''https://youtu.be/'' @ i) of Some g \<Rightarrow> Some g | None \<Rightarrow> None)"
    by (simp only: first_match.simps)
  also have "\<dots> = Some i"
    by (simp only: re_search_id_canonical[OF a] option.case)
  finally show ?thesis by (simp only: extract_video_id_def)
qed

theorem extract_video_id_roundtrip_witness:
  "length ''dQw4w9WgXcQ'' = 11 \<and> list_all id_char ''dQw4w9WgXcQ'' \<and>
   extract_video_id (''https://youtu.be/'' @ ''dQw4w9WgXcQ'') = Some ''dQw4w9WgXcQ''"
proof -
  have a: "length ''dQw4w9WgXcQ'' = 11" by simp
  have b: "list_all id_char ''dQw4w9WgXcQ''" by (simp add: id_char_def)
  from a b extract_video_id_roundtrip[OF a b] show ?thesis by blast
qed

section \<open>Properties of platform detection\<close>

lemma match_alt_end_iff:
  "match_alt_end alts s \<longleftrightarrow> (\<exists>a\<in>set alts. s = a \<or> s = a @ [CHR 0x0A])"
proof -
  have "take (length a) s = a \<and> at_dollar (drop (length a) s) \<longleftrightarrow> s = a \<or> s = a @ [CHR 0x0A]" for a
    unfolding at_dollar_def
    by (metis append_Nil2 append_eq_conv_conj append_take_drop_id)
  then show ?thesis by (simp add: match_alt_end_def list_ex_iff)
qed

lemma re_search_end_iff:
  "re_search_end alts s \<longleftrightarrow> (\<exists>a\<in>set alts. suffix a s \<or> suffix (a @ [CHR 0x0A]) s)"
proof (induction s)
  case Nil
  show ?case by (auto simp: match_alt_end_iff)
next
  case (Cons c cs)
  have "(c # cs = a \<or> c # cs = a @ [CHR 0x0A]) \<or> (suffix a cs \<or> suffix (a @ [CHR 0x0A]) cs)
        \<longleftrightarrow> suffix a (c # cs) \<or> suffix (a @ [CHR 0x0A]) (c # cs)" for a
    by (auto simp: suffix_Cons)
  then show ?case
    unfolding re_search_end.simps Cons.IH match_alt_end_iff by blast
qed

lemma set_strip_scheme: "set (strip_scheme u) \<subseteq> set u"
  by (auto simp: strip_scheme_def Let_def dest: in_set_dropD)

lemma raw_netloc_no_newline: "CHR 0x0A \<notin> set (raw_netloc url)"
proof -
  let ?f = "filter (\<lambda>c. \<not> unsafe_url_byte c) (dropWhile c0_control_or_space url)"
  have "CHR 0x0A \<notin> set ?f" by (simp add: unsafe_url_byte_def)
  then have "CHR 0x0A \<notin> set (strip_scheme ?f)" using set_strip_scheme by blast
  then have "CHR 0x0A \<notin> set (takeWhile (\<lambda>c. c \<notin> set ''/?#'') (drop 2 (strip_scheme ?f)))"
    by (meson in_set_dropD set_takeWhileD)
  then show ?thesis by (simp add: raw_netloc_def Let_def)
qed

lemma py_lower_char_newline: "py_lower_char c = CHR 0x0A \<Longrightarrow> c = CHR 0x0A"
proof (rule ccontr)
  assume a: "py_lower_char c = CHR 0x0A" and n: "c \<noteq> CHR 0x0A"
  let ?n = "of_char c :: nat"
  from a n have r: "(65 \<le> ?n \<and> ?n \<le> 90) \<or> (192 \<le> ?n \<and> ?n \<le> 222 \<and> ?n \<noteq> 215)"
    and e: "char_of (?n + 32) = CHR 0x0A"
    by (auto simp: py_lower_char_def Let_def split: if_splits)
  from e have "(of_char (char_of (?n + 32) :: char) :: nat) = 10" by simp
  then have "(?n + 32) mod 256 = 10" by (simp add: of_char_of)
  with r show False by auto
qed

lemma py_lower_no_newline: "CHR 0x0A \<notin> set s \<Longrightarrow> CHR 0x0A \<notin> set (py_lower s)"
  by (metis (no_types, lifting) imageE list.set_map py_lower_char_newline py_lower_def)

lemma no_newline_suffix: "CHR 0x0A \<notin> set s \<Longrightarrow> \<not> suffix (a @ [CHR 0x0A]) s"
  by (auto dest: set_mono_suffix)

lemma domain_search:
  "re_search_end alts (py_lower (raw_netloc url)) \<longleftrightarrow> (\<exists>a\<in>set alts. suffix a (py_lower (raw_netloc url)))"
  using no_newline_suffix[OF py_lower_no_newline[OF raw_netloc_no_newline]]
  by (simp add: re_search_end_iff)

lemma suffix_excl:
  "suffix ''tiktok.com'' d \<Longrightarrow> \<not> suffix ''youtube.com'' d"
  "suffix ''tiktok.com'' d \<Longrightarrow> \<not> suffix ''youtu.be'' d"
  "suffix ''instagram.com'' d \<Longrightarrow> \<not> suffix ''youtube.com'' d"
  "suffix ''instagram.com'' d \<Longrightarrow> \<not> suffix ''youtu.be'' d"
  "suffix ''instagram.com'' d \<Longrightarrow> \<not> suffix ''tiktok.com'' d"
  by (auto dest: suffix_same_cases simp: suffix_Cons)

lemma detect_platform_unfold:
  assumes "py_strip url \<noteq> []" "urlparse_netloc lib (py_strip url) = Inr netloc"
  shows "detect_platform lib url =
     (if suffix ''youtube.com'' (py_lower netloc) \<or> suffix ''youtu.be'' (py_lower netloc) then Inr ''youtube''
      else if suffix ''tiktok.com'' (py_lower netloc) then Inr ''tiktok''
      else if suffix ''instagram.com'' (py_lower netloc) then Inr ''instagram''
      else Inr ''unknown'')"
proof -
  from assms(2) have n: "netloc = raw_netloc (py_strip url)"
    by (auto simp: urlparse_netloc_def split: if_splits)
  show ?thesis
    using assms unfolding detect_platform_def Let_def n
    by (simp only: domain_search sum.case if_False) (simp only: list.set bex_simps insert_iff empty_iff simp_thms)
qed

text \<open>
  C1 (amended): the empty string, after trimming, gives \<open>unknown\<close>. For every other
  URL that urlparse accepts, with \<open>netloc\<close> the network location urlparse returns
  (user information, host and port), detect_platform returns \<open>youtube\<close> when the
  lower-cased netloc ends with \<open>youtube.com\<close> or \<open>youtu.be\<close>, \<open>tiktok\<close> when it
  ends with \<open>tiktok.com\<close>, \<open>instagram\<close> when it ends with \<open>instagram.com\<close>, and
  \<open>unknown\<close> otherwise.
\<close>

theorem detect_platform_by_netloc:
  "(py_strip url = [] \<longrightarrow> detect_platform lib url = Inr ''unknown'') \<and>
   (py_strip url \<noteq> [] \<and> urlparse_netloc lib (py_strip url) = Inr netloc \<longrightarrow>
      (suffix ''youtube.com'' (py_lower netloc) \<or> suffix ''youtu.be'' (py_lower netloc)
         \<longrightarrow> detect_platform lib url = Inr ''youtube'') \<and>
      (suffix ''tiktok.com'' (py_lower netloc) \<longrightarrow> detect_platform lib url = Inr ''tiktok'') \<and>
      (suffix ''instagram.com'' (py_lower netloc) \<longrightarrow> detect_platform lib url = Inr ''instagram'') \<and>
      (\<not> suffix ''youtube.com'' (py_lower netloc) \<and> \<not> suffix ''youtu.be'' (py_lower netloc) \<and>
       \<not> suffix ''tiktok.com'' (py_lower netloc) \<and> \<not> suffix ''instagram.com'' (py_lower netloc)
         \<longrightarrow> detect_platform lib url = Inr ''unknown''))"
proof (intro conjI impI)
  assume "py_strip url = []"
  then show "detect_platform lib url = Inr ''unknown''"
    by (simp add: detect_platform_def)
next
  assume a: "py_strip url \<noteq> [] \<and> urlparse_netloc lib (py_strip url) = Inr netloc"
  note u = detect_platform_unfold[OF conjunct1[OF a] conjunct2[OF a]]
  { assume "suffix ''youtube.com'' (py_lower netloc) \<or> suffix ''youtu.be'' (py_lower netloc)"
    then show "detect_platform lib url = Inr ''youtube''" unfolding u by simp }
  { assume "suffix ''tiktok.com'' (py_lower netloc)"
    then show "detect_platform lib url = Inr ''tiktok''"
      unfolding u using suffix_excl(1,2) by simp }
  { assume "suffix ''instagram.com'' (py_lower netloc)"
    then show "detect_platform lib url = Inr ''instagram''"
      unfolding u using suffix_excl(3,4,5) by simp }
  { assume "\<not> suffix ''youtube.com'' (py_lower netloc) \<and> \<not> suffix ''youtu.be'' (py_lower netloc) \<and>
       \<not> suffix ''tiktok.com'' (py_lower netloc) \<and> \<not> suffix ''instagram.com'' (py_lower netloc)"
    then show "detect_platform lib url = Inr ''unknown''" unfolding u by simp }
qed

theorem detect_platform_by_netloc_witness:
  "py_strip ''  https://www.YouTube.com/watch?v=abc '' \<noteq> [] \<and>
   urlparse_netloc strict_lib (py_strip ''  https://www.YouTube.com/watch?v=abc '') = Inr ''www.YouTube.com'' \<and>
   suffix ''youtube.com'' (py_lower ''www.YouTube.com'') \<and>
   detect_platform strict_lib ''  https://www.YouTube.com/watch?v=abc '' = Inr ''youtube''"
proof -
  have h: "py_strip ''  https://www.YouTube.com/watch?v=abc '' \<noteq> [] \<and>
   urlparse_netloc strict_lib (py_strip ''  https://www.YouTube.com/watch?v=abc '') = Inr ''www.YouTube.com''"
    by code_simp
  have s: "suffix ''youtube.com'' (py_lower ''www.YouTube.com'')" by code_simp
  from h s detect_platform_by_netloc[of "''  https://www.YouTube.com/watch?v=abc ''" strict_lib "''www.YouTube.com''"]
  show ?thesis by blast
qed

text \<open>
  The claim as stated fails where urlparse raises: the netloc of \<open>http://[youtube.com\<close>
  ends with \<open>youtube.com\<close>, and detect_platform raises ValueError instead of
  returning a tag.
\<close>

theorem detect_platform_by_netloc_counterexample:
  "detect_platform strict_lib ''http://[youtube.com'' = Inl ValueError \<and>
   suffix ''youtube.com'' (py_lower (raw_netloc (py_strip ''http://[youtube.com'')))"
  by code_simp

text \<open>The netloc carries the port: a YouTube URL with an explicit port is \<open>unknown\<close>.\<close>

lemma detect_platform_port_example:
  "detect_platform strict_lib ''https://www.youtube.com:443/watch'' = Inr ''unknown''"
  by code_simp

text \<open>Each of the two checks of urlparse makes detect_platform raise.\<close>

lemma detect_platform_brackets_raise:
  "py_strip url \<noteq> [] \<Longrightarrow> brackets_rejected lib (raw_netloc (py_strip url)) \<Longrightarrow>
   detect_platform lib url = Inl ValueError"
  by (simp add: detect_platform_def urlparse_netloc_def netloc_rejected_def)

lemma detect_platform_checknetloc_raises:
  "py_strip url \<noteq> [] \<Longrightarrow> checknetloc_rejected lib (raw_netloc (py_strip url)) \<Longrightarrow>
   detect_platform lib url = Inl ValueError"
  by (simp add: detect_platform_def urlparse_netloc_def netloc_rejected_def)

text \<open>
  C2 (amended): detect_platform is total. It raises ValueError exactly when the trimmed
  URL is not empty and urlparse rejects its netloc: one of \<open>[\<close> and \<open>]\<close> without the
  other, a bracketed host that \<open>_check_bracketed_host\<close> refuses, or a netloc that
  \<open>_checknetloc\<close> refuses (not ASCII, and its NFKC normal form holds one of
  \<open>/ ? # @ :\<close>). On every other input it returns one of the four platform tags.
\<close>

theorem detect_platform_outcomes:
  "(if py_strip url \<noteq> [] \<and>
      (brackets_rejected lib (raw_netloc (py_strip url)) \<or>
       checknetloc_rejected lib (raw_netloc (py_strip url)))
    then detect_platform lib url = Inl ValueError
    else detect_platform lib url \<in> {Inr ''youtube'', Inr ''tiktok'', Inr ''instagram'', Inr ''unknown''})"
  by (simp add: detect_platform_def urlparse_netloc_def netloc_rejected_def Let_def)

theorem detect_platform_outcomes_witness:
  "\<not> (py_strip ''https://vm.tiktok.com/ZM/'' \<noteq> [] \<and>
      (brackets_rejected strict_lib (raw_netloc (py_strip ''https://vm.tiktok.com/ZM/'')) \<or>
       checknetloc_rejected strict_lib (raw_netloc (py_strip ''https://vm.tiktok.com/ZM/'')))) \<and>
   detect_platform strict_lib ''https://vm.tiktok.com/ZM/''
     \<in> {Inr ''youtube'', Inr ''tiktok'', Inr ''instagram'', Inr ''unknown''} \<and>
   py_strip ''http://a]b/'' \<noteq> [] \<and>
   brackets_rejected strict_lib (raw_netloc (py_strip ''http://a]b/'')) \<and>
   detect_platform strict_lib ''http://a]b/'' = Inl ValueError"
proof -
  have h: "\<not> (py_strip ''https://vm.tiktok.com/ZM/'' \<noteq> [] \<and>
      (brackets_rejected strict_lib (raw_netloc (py_strip ''https://vm.tiktok.com/ZM/'')) \<or>
       checknetloc_rejected strict_lib (raw_netloc (py_strip ''https://vm.tiktok.com/ZM/''))))"
    by code_simp
  have t: "detect_platform strict_lib ''https://vm.tiktok.com/ZM/''
     \<in> {Inr ''youtube'', Inr ''tiktok'', Inr ''instagram'', Inr ''unknown''}"
    using h detect_platform_outcomes[of "''https://vm.tiktok.com/ZM/''" strict_lib]
    by (simp only: if_False simp_thms)
  have r: "py_strip ''http://a]b/'' \<noteq> []"
    "brackets_rejected strict_lib (raw_netloc (py_strip ''http://a]b/''))"
    by code_simp+
  have v: "detect_platform strict_lib ''http://a]b/'' = Inl ValueError"
    using r detect_platform_outcomes[of "''http://a]b/''" strict_lib]
    by (simp only: simp_thms if_True)
  from h t r v show ?thesis by blast
qed

text \<open>The claim as stated fails: on \<open>http://[\<close> detect_platform raises ValueError.\<close>

theorem detect_platform_never_throws_counterexample:
  "detect_platform strict_lib ''http://['' = Inl ValueError"
  by code_simp

section \<open>Properties of the Instagram normalizer\<close>

lemma instagram_try_raises:
  "instagram_page e url log = (Inl x, log') \<Longrightarrow> instagram_try e url log = (Inl x, log')"
  by (simp add: instagram_try_def)

lemma instagram_try_temp_raises:
  "instagram_page e url log = (Inl x, log') \<Longrightarrow> instagram_try_temp e url log = (Inl x, log')"
  by (simp add: instagram_try_temp_def)

lemma instagram_try_raises_iff:
  "instagram_try e url log = (Inl x, log') \<longleftrightarrow> instagram_page e url log = (Inl x, log')"
  by (cases "instagram_page e url log") (auto simp: instagram_try_def Let_def split: sum.splits)

text \<open>
  C4: whenever the request, \<open>raise_for_status\<close> or the parse raises an exception
  (one that derives from Exception, which is what the handler names), neither version of
  fetch_instagram_meta propagates it: each returns the record with the url and with
  \<open>description\<close> and \<open>thumbnail\<close> equal to the empty string.
\<close>

theorem fetch_instagram_meta_swallows:
  assumes "is_Exception x" and "instagram_page e url log = (Inl x, log')"
  shows "fetch_instagram_meta e url log =
           (Inr [(''url'', Some url), (''description'', Some []), (''thumbnail'', Some [])], log') \<and>
         fetch_instagram_meta_temp e url log =
           (Inr [(''url'', Some url), (''description'', Some []), (''thumbnail'', Some [])], log')"
  using assms
  by (simp add: fetch_instagram_meta_def fetch_instagram_meta_temp_def
        instagram_try_raises instagram_try_temp_raises)

text \<open>No exception that derives from Exception leaves fetch_instagram_meta.\<close>

lemma fetch_instagram_meta_no_Exception:
  "fetch_instagram_meta e url log = (Inl x, log') \<Longrightarrow> \<not> is_Exception x"
  by (cases "instagram_try e url log")
     (auto simp: fetch_instagram_meta_def split: sum.splits if_splits)

theorem fetch_instagram_meta_swallows_witness:
  "is_Exception HTTPError \<and>
   instagram_page not_found_env ''https://www.instagram.com/reel/gone/'' [] =
     (Inl HTTPError, [RequestsGet ''https://www.instagram.com/reel/gone/'' []]) \<and>
   fetch_instagram_meta not_found_env ''https://www.instagram.com/reel/gone/'' [] =
     (Inr [(''url'', Some ''https://www.instagram.com/reel/gone/''), (''description'', Some []),
           (''thumbnail'', Some [])], [RequestsGet ''https://www.instagram.com/reel/gone/'' []])"
proof -
  have a: "is_Exception HTTPError" by simp
  have b: "instagram_page not_found_env ''https://www.instagram.com/reel/gone/'' [] =
     (Inl HTTPError, [RequestsGet ''https://www.instagram.com/reel/gone/'' []])"
    by (simp add: instagram_page_def not_found_env_def)
  from a b fetch_instagram_meta_swallows[OF a b] show ?thesis by blast
qed

text \<open>
  C5: the code does not do what the claim (and the comment in the source) says. In
  media_meta_data.py \<open>replace("nan", "")\<close> removes every occurrence of \<open>nan\<close> inside
  a value: \<open>banana\<close> comes out as \<open>baa\<close>, and \<open>nnanan\<close> comes out as the placeholder
  \<open>nan\<close> itself. In temp.py nothing is replaced: \<open>nan\<close> stays \<open>nan\<close>.
\<close>

theorem fetch_instagram_meta_nan_substring:
  "fst (fetch_instagram_meta (og_env ''banana'') ''https://www.instagram.com/p/x/'' []) =
     Inr [(''url'', Some ''https://www.instagram.com/p/x/''), (''description'', Some ''baa''),
          (''thumbnail'', Some [])] \<and>
   fst (fetch_instagram_meta (og_env ''nnanan'') ''https://www.instagram.com/p/x/'' []) =
     Inr [(''url'', Some ''https://www.instagram.com/p/x/''), (''description'', Some ''nan''),
          (''thumbnail'', Some [])] \<and>
   fst (fetch_instagram_meta_temp (og_env ''nan'') ''https://www.instagram.com/p/x/'' []) =
     Inr [(''url'', Some ''https://www.instagram.com/p/x/''), (''description'', Some ''nan''),
          (''thumbnail'', Some [])]"
  by (simp add: fetch_instagram_meta_def fetch_instagram_meta_temp_def instagram_try_def
        instagram_try_temp_def instagram_page_def og_env_def og_def og_page_def str_or_empty_def
        py_strip_def py_isspace_def)

theorem fetch_instagram_meta_nan_substring_witness:
  "fst (fetch_instagram_meta (og_env ''banana'') ''https://www.instagram.com/p/x/'' []) \<noteq>
     Inr [(''url'', Some ''https://www.instagram.com/p/x/''), (''description'', Some ''banana''),
          (''thumbnail'', Some [])]"
  using fetch_instagram_meta_nan_substring by simp

section \<open>Properties of the YouTube normalizer in the row loop\<close>

lemma fetch_video_data_no_items:
  "videos_list e log vid = Inr [] \<Longrightarrow> fetch_video_data e vid log = (Inr None, log @ [VideosList vid])"
  by (simp add: fetch_video_data_def)

lemma download_metadata_no_items:
  assumes "detect_platform (url_lib e) url = Inr ''youtube''"
    and "videos_list e log (extract_video_id url) = Inr []"
  shows "download_metadata e n url log = (Inr None, log @ [VideosList (extract_video_id url)])"
  using assms by (simp add: download_metadata_def fetch_video_data_no_items)

lemma process_row_no_result:
  assumes "row_url r \<noteq> []" "row_url r \<noteq> ''nan''"
    and "download_metadata e (idx + 1) (row_url r) (calls st) = (Inr None, log')"
  shows "process_row e st (idx, r) =
           (None, st\<lparr>skipped_error_count := skipped_error_count st + 1, calls := log'\<rparr>)"
  using assms by (simp add: process_row_def)

text \<open>
  C6: for every video id, when the provider's answer has no item, fetch_video_data
  returns None; and a row whose link classifies as \<open>youtube\<close> and whose lookup has no
  item adds one to the merged skipped/errored counter, leaves everything else but the
  call log as it was, and the loop goes on with the remaining rows.
\<close>

theorem zero_items_counted_and_skipped:
  "(videos_list e log vid = Inr [] \<longrightarrow>
      fetch_video_data e vid log = (Inr None, log @ [VideosList vid])) \<and>
   (row_url r \<noteq> [] \<and> row_url r \<noteq> ''nan'' \<and>
    detect_platform (url_lib e) (row_url r) = Inr ''youtube'' \<and>
    videos_list e (calls st) (extract_video_id (row_url r)) = Inr [] \<longrightarrow>
      process_row e st (idx, r) =
        (None, st\<lparr>skipped_error_count := skipped_error_count st + 1,
                  calls := calls st @ [VideosList (extract_video_id (row_url r))]\<rparr>) \<and>
      row_loop e st ((idx, r) # rest) =
        row_loop e (st\<lparr>skipped_error_count := skipped_error_count st + 1,
                       calls := calls st @ [VideosList (extract_video_id (row_url r))]\<rparr>) rest)"
proof (intro conjI impI)
  assume "videos_list e log vid = Inr []"
  then show "fetch_video_data e vid log = (Inr None, log @ [VideosList vid])"
    by (rule fetch_video_data_no_items)
next
  assume a: "row_url r \<noteq> [] \<and> row_url r \<noteq> ''nan'' \<and>
    detect_platform (url_lib e) (row_url r) = Inr ''youtube'' \<and>
    videos_list e (calls st) (extract_video_id (row_url r)) = Inr []"
  then have d: "download_metadata e (idx + 1) (row_url r) (calls st) =
      (Inr None, calls st @ [VideosList (extract_video_id (row_url r))])"
    by (simp add: download_metadata_no_items)
  from a show p: "process_row e st (idx, r) =
        (None, st\<lparr>skipped_error_count := skipped_error_count st + 1,
                  calls := calls st @ [VideosList (extract_video_id (row_url r))]\<rparr>)"
    by (simp add: process_row_no_result[OF _ _ d])
  show "row_loop e st ((idx, r) # rest) =
        row_loop e (st\<lparr>skipped_error_count := skipped_error_count st + 1,
                       calls := calls st @ [VideosList (extract_video_id (row_url r))]\<rparr>) rest"
    by (simp add: p)
qed

lemma youtube_row_facts:
  "row_url [(''Platform'', Some ''youtube''), (''URL / Media'', Some ''https://youtu.be/dQw4w9WgXcQ'')]
     = ''https://youtu.be/dQw4w9WgXcQ''"
  "detect_platform strict_lib ''https://youtu.be/dQw4w9WgXcQ'' = Inr ''youtube''"
  by code_simp+

theorem zero_items_counted_and_skipped_witness:
  "videos_list not_found_env [] (Some ''dQw4w9WgXcQ'') = Inr [] \<and>
   fetch_video_data not_found_env (Some ''dQw4w9WgXcQ'') [] =
     (Inr None, [VideosList (Some ''dQw4w9WgXcQ'')]) \<and>
   fst (process_row not_found_env (initial_state two_rows_files two_rows)
          (0, [(''Platform'', Some ''youtube''), (''URL / Media'', Some ''https://youtu.be/dQw4w9WgXcQ'')]))
     = None \<and>
   skipped_error_count (snd (process_row not_found_env (initial_state two_rows_files two_rows)
          (0, [(''Platform'', Some ''youtube''), (''URL / Media'', Some ''https://youtu.be/dQw4w9WgXcQ'')])))
     = 1 \<and>
   success_count (snd (process_row not_found_env (initial_state two_rows_files two_rows)
          (0, [(''Platform'', Some ''youtube''), (''URL / Media'', Some ''https://youtu.be/dQw4w9WgXcQ'')])))
     = 0"
proof -
  let ?r = "[(''Platform'', Some ''youtube''), (''URL / Media'', Some ''https://youtu.be/dQw4w9WgXcQ'')]"
  let ?st = "initial_state two_rows_files two_rows"
  have v: "videos_list not_found_env log vid = Inr []" for log vid
    by (simp add: not_found_env_def)
  have h: "row_url ?r \<noteq> [] \<and> row_url ?r \<noteq> ''nan'' \<and>
    detect_platform (url_lib not_found_env) (row_url ?r) = Inr ''youtube'' \<and>
    videos_list not_found_env (calls ?st) (extract_video_id (row_url ?r)) = Inr []"
    using youtube_row_facts by (simp add: v) (simp add: not_found_env_def)
  from zero_items_counted_and_skipped[of not_found_env "[]" "Some ''dQw4w9WgXcQ''" ?r ?st 0 "[]"] v h
  show ?thesis by (simp add: initial_state_def)
qed

section \<open>Properties of the dispatchers\<close>

lemma download_metadata_unknown:
  "detect_platform (url_lib e) url = Inr ''unknown'' \<Longrightarrow>
   download_metadata e n url log = (Inr None, log)"
  by (simp add: download_metadata_def)

lemma download_video_unknown:
  "detect_platform (dl_url_lib d) url = Inr ''unknown'' \<Longrightarrow> download_video d url w = (Inr None, w)"
  by (simp add: download_video_def)

lemma download_metadata_known:
  "detect_platform (url_lib e) url = Inr ''youtube'' \<Longrightarrow>
     download_metadata e n url log = fetch_video_data e (extract_video_id url) log"
  "detect_platform (url_lib e) url = Inr ''tiktok'' \<Longrightarrow>
     download_metadata e n url log = fetch_tiktok_reel_metadata e url log"
  "detect_platform (url_lib e) url = Inr ''instagram'' \<Longrightarrow>
     download_metadata e n url log =
       (map_sum id Some (fst (fetch_instagram_meta e url log)), snd (fetch_instagram_meta e url log))"
  by (auto simp: download_metadata_def split: prod.splits sum.splits)

lemma download_video_youtube:
  "detect_platform (dl_url_lib d) url = Inr ''youtube'' \<Longrightarrow>
     download_video d url w = download_youtube d url w"
  by (simp add: download_video_def)

lemma download_video_tiktok:
  assumes "detect_platform (dl_url_lib d) url = Inr ''tiktok''"
  shows "download_video d url w =
           (if env_set (getenv d ''RAPIDAPI_KEY'')
            then download_tiktok d url (the (getenv d ''RAPIDAPI_KEY'')) w
            else (Inl EnvironmentError, w))"
  using assms by (simp add: download_video_def env_set_def split: option.splits)

lemma download_video_instagram:
  assumes "detect_platform (dl_url_lib d) url = Inr ''instagram''"
  shows "download_video d url w =
           (if env_set (getenv d ''INSTA_USERNAME'') \<and> env_set (getenv d ''INSTA_PASSWORD'')
            then (case login d (the (getenv d ''INSTA_USERNAME'')) (the (getenv d ''INSTA_PASSWORD'')) w of
                    (Inl x, w') \<Rightarrow> (Inl x, w')
                  | (Inr L, w') \<Rightarrow> download_instagram d url (Some L) w')
            else download_instagram d url None w)"
  using assms by (simp add: download_video_def)

text \<open>
  C7 (amended): for every URL that classifies as \<open>unknown\<close>, download_metadata and
  download_video return None and leave the call log and the world as they were: no
  normalizer and no network collaborator is invoked. For a URL that classifies as a
  known platform, download_metadata returns the matching normalizer's result as it is.
  download_video returns the YouTube downloader's result as it is; for TikTok it raises
  EnvironmentError, without calling the downloader, when \<open>RAPIDAPI_KEY\<close> is unset or
  empty, and returns the downloader's result otherwise; for Instagram it calls the
  downloader with no loader when a credential is missing, and otherwise logs in first,
  a failed login propagating and a successful one giving the loader to the downloader.
\<close>

theorem dispatch_by_platform:
  "(detect_platform (url_lib e) url = Inr ''unknown'' \<longrightarrow>
      download_metadata e n url log = (Inr None, log)) \<and>
   (detect_platform (dl_url_lib d) url = Inr ''unknown'' \<longrightarrow>
      download_video d url w = (Inr None, w)) \<and>
   (detect_platform (url_lib e) url = Inr ''youtube'' \<longrightarrow>
      download_metadata e n url log = fetch_video_data e (extract_video_id url) log) \<and>
   (detect_platform (url_lib e) url = Inr ''tiktok'' \<longrightarrow>
      download_metadata e n url log = fetch_tiktok_reel_metadata e url log) \<and>
   (detect_platform (url_lib e) url = Inr ''instagram'' \<longrightarrow>
      download_metadata e n url log =
        (map_sum id Some (fst (fetch_instagram_meta e url log)), snd (fetch_instagram_meta e url log))) \<and>
   (detect_platform (dl_url_lib d) url = Inr ''youtube'' \<longrightarrow>
      download_video d url w = download_youtube d url w) \<and>
   (detect_platform (dl_url_lib d) url = Inr ''tiktok'' \<longrightarrow>
      download_video d url w =
        (if env_set (getenv d ''RAPIDAPI_KEY'')
         then download_tiktok d url (the (getenv d ''RAPIDAPI_KEY'')) w
         else (Inl EnvironmentError, w))) \<and>
   (detect_platform (dl_url_lib d) url = Inr ''instagram'' \<longrightarrow>
      download_video d url w =
        (if env_set (getenv d ''INSTA_USERNAME'') \<and> env_set (getenv d ''INSTA_PASSWORD'')
         then (case login d (the (getenv d ''INSTA_USERNAME'')) (the (getenv d ''INSTA_PASSWORD'')) w of
                 (Inl x, w') \<Rightarrow> (Inl x, w')
               | (Inr L, w') \<Rightarrow> download_instagram d url (Some L) w')
         else download_instagram d url None w))"
  using download_metadata_unknown download_video_unknown download_metadata_known
    download_video_youtube download_video_tiktok download_video_instagram
  by (intro conjI impI) blast+

lemma dispatch_example_platforms:
  "detect_platform strict_lib ''https://example.org/v'' = Inr ''unknown''"
  "detect_platform strict_lib ''https://www.youtube.com/watch?v=dQw4w9WgXcQ'' = Inr ''youtube''"
  "detect_platform strict_lib ''https://www.tiktok.com/@u/video/1'' = Inr ''tiktok''"
  by code_simp+

theorem dispatch_by_platform_witness:
  "detect_platform (url_lib not_found_env) ''https://example.org/v'' = Inr ''unknown'' \<and>
   download_metadata not_found_env 1 ''https://example.org/v'' [] = (Inr None, []) \<and>
   detect_platform (dl_url_lib counting_downloaders) ''https://example.org/v'' = Inr ''unknown'' \<and>
   download_video counting_downloaders ''https://example.org/v'' 0 = (Inr None, 0)"
proof -
  have a: "detect_platform (url_lib not_found_env) ''https://example.org/v'' = Inr ''unknown''"
    using dispatch_example_platforms(1) by (simp add: not_found_env_def)
  have b: "detect_platform (dl_url_lib counting_downloaders) ''https://example.org/v'' = Inr ''unknown''"
    using dispatch_example_platforms(1) by (simp add: counting_downloaders_def)
  from a b dispatch_by_platform[of not_found_env "''https://example.org/v''" 1 "[]" counting_downloaders 0]
  show ?thesis by blast
qed

text \<open>
  The claim as stated fails for download_video: with no \<open>RAPIDAPI_KEY\<close>, a TikTok URL
  gives EnvironmentError and an untouched world, not what the downloader returns.
\<close>

theorem dispatch_by_platform_counterexample:
  "detect_platform (dl_url_lib counting_downloaders) ''https://www.tiktok.com/@u/video/1'' = Inr ''tiktok'' \<and>
   download_video counting_downloaders ''https://www.tiktok.com/@u/video/1'' 0 = (Inl EnvironmentError, 0) \<and>
   download_tiktok counting_downloaders ''https://www.tiktok.com/@u/video/1'' [] 0 =
     (Inr (Some ''tiktok''), Suc 0)"
proof -
  have a: "detect_platform (dl_url_lib counting_downloaders) ''https://www.tiktok.com/@u/video/1'' = Inr ''tiktok''"
    using dispatch_example_platforms(3) by (simp add: counting_downloaders_def)
  have b: "download_video counting_downloaders ''https://www.tiktok.com/@u/video/1'' 0 = (Inl EnvironmentError, 0)"
    unfolding download_video_tiktok[OF a] by (simp add: counting_downloaders_def env_set_def)
  have c: "download_tiktok counting_downloaders ''https://www.tiktok.com/@u/video/1'' [] 0 =
     (Inr (Some ''tiktok''), Suc 0)"
    by (simp add: counting_downloaders_def)
  from a b c show ?thesis by blast
qed


section \<open>The input file during the row loop\<close>

lemma temp_not_input: "TEMP_CSV \<noteq> INPUT_CSV"
  by (simp add: TEMP_CSV_def INPUT_CSV_def)

lemma process_row_input:
  "files (snd (process_row e st ir)) INPUT_CSV = files st INPUT_CSV"
  using temp_not_input
  by (auto simp: process_row_def Let_def split: prod.splits sum.splits option.splits list.splits)

lemma row_loop_input:
  "files (snd (row_loop e st irs)) INPUT_CSV = files st INPUT_CSV"
proof (induction irs arbitrary: st)
  case Nil
  show ?case by simp
next
  case (Cons ir irs)
  obtain x st' where p: "process_row e st ir = (x, st')" by fastforce
  have f: "files st' INPUT_CSV = files st INPUT_CSV"
    using process_row_input[of e st ir] p by simp
  show ?case
  proof (cases x)
    case None
    with p Cons.IH[of st'] f show ?thesis by simp
  next
    case (Some a)
    with p f show ?thesis by simp
  qed
qed

lemma initial_state_input: "files (initial_state fs t) INPUT_CSV = fs INPUT_CSV"
  using temp_not_input by (simp add: initial_state_def)

text \<open>
  C9: when the loop starts, and after any number \<open>n\<close> of rows (also when the last of
  them is left by an exception), the input file holds what it held when the run
  started; only the temporary file is written before the swap.
\<close>

theorem input_untouched_before_swap:
  "fs INPUT_CSV = Some t \<Longrightarrow>
   files (initial_state fs t) INPUT_CSV = Some t \<and>
   files (snd (row_loop e (initial_state fs t) (take n (enumerate 0 (rows (load_df t))))))
     INPUT_CSV = Some t"
  by (simp add: row_loop_input initial_state_input)

theorem input_untouched_before_swap_witness:
  "two_rows_files INPUT_CSV = Some two_rows \<and>
   files (snd (row_loop not_found_env (initial_state two_rows_files two_rows)
                 (take 1 (enumerate 0 (rows (load_df two_rows)))))) INPUT_CSV = Some two_rows"
proof -
  have h: "two_rows_files INPUT_CSV = Some two_rows" by (simp add: two_rows_files_def)
  from h input_untouched_before_swap[of two_rows_files two_rows not_found_env 1] show ?thesis by blast
qed

text \<open>A run that reaches the swap installs the temporary file as the input file.\<close>

lemma swap_installs_temp:
  assumes "fs INPUT_CSV = Some t"
    and "row_loop e (initial_state fs t) (enumerate 0 (rows (load_df t))) = (None, st)"
  shows "snd (main_script e fs) INPUT_CSV = files st TEMP_CSV \<and>
         snd (main_script e fs) TEMP_CSV = None"
  using assms temp_not_input by (simp add: main_script_def os_replace_def)

end
